theory Spec2Isabelle
  imports Complex_Main "HOL-Library.Multiset"
begin

section \<open>Recipe Creator: the matching engine and the model-response normaliser\<close>

text \<open>
  A shallow embedding of \<^verbatim>\<open>src/utils/recipeEngine.ts\<close> and of the LLM utilities
  (\<^verbatim>\<open>normalizeRecipe\<close>, \<^verbatim>\<open>extractJsonFromText\<close>, \<^verbatim>\<open>generateRecipesWithLlm\<close>).

  Modelling conventions.
  \<^item> A finite JavaScript \<^verbatim>\<open>number\<close> is a rational (\<^typ>\<open>rat\<close>). \<^verbatim>\<open>Math.round x\<close> is
    \<open>\<lfloor>x + 1/2\<rfloor>\<close> (halves go up). In \<open>pantryFitPercent\<close> the division and the
    multiplication round to the nearest double (\<open>fl\<close>, binary64, ties to even); the
    scores and the scaled quantities are computed exactly. The argument \<^verbatim>\<open>recipeCount\<close> of
    the orchestrator is a \<open>number\<close> that may also be \<^verbatim>\<open>NaN\<close> or infinite.
  \<^item> A JavaScript string is a \<^typ>\<open>string\<close> of ASCII characters; \<^verbatim>\<open>\s\<close> is the ASCII
    white space (space, tab, line feed, vertical tab, form feed, carriage return).
  \<^item> The enum types of \<^verbatim>\<open>types.ts\<close> exist at compile time only; at run time their
    values are strings, and so they are here.
  \<^item> An optional field (\<^verbatim>\<open>optional?: boolean\<close>) is an \<^typ>\<open>'a option\<close>, \<open>None\<close> when absent.
  \<^item> An exception is a value of type \<open>error\<close> on the left of a sum.
\<close>

subsection \<open>Data model (types.ts)\<close>

record Ingredient =
  name :: string
  quantity :: rat
  unit :: string
  optional :: "bool option"
  ingredient_notes :: "string option"

record MethodStep =
  step_text :: string
  timerMinutes :: "rat option"
  step_notes :: "string option"
  temperatureC :: "rat option"
  gasMark :: "string option"

record Recipe =
  recipe_id :: string
  title :: string
  description :: string
  cuisine :: string
  difficulty :: string
  cookTimeMinutes :: rat
  servings :: rat
  dietaryTags :: "string list"
  allergens :: "string list"
  equipment :: "string list"
  ingredients :: "Ingredient list"
  steps :: "MethodStep list"
  swapSuggestions :: "string list"
  tips :: "string list"
  source :: "string option"

record Preferences =
  pref_servings :: rat
  maxCookTime :: rat
  pref_cuisine :: string
  dietary :: "string list"
  allergensToAvoid :: "string list"
  pref_equipment :: "string list"

record ScoredCandidate =
  score :: rat
  strictMatch :: bool
  recipe :: Recipe

definition UNIT_OPTIONS :: "string list" where
  "UNIT_OPTIONS = [''g'', ''kg'', ''ml'', ''litres'', ''tbsp'', ''tsp'', ''clove'', ''whole'',
     ''pinch'', ''slice'', ''can'', ''cup'']"

definition ALLERGEN_OPTIONS :: "string list" where
  "ALLERGEN_OPTIONS = [''dairy'', ''eggs'', ''fish'', ''gluten'', ''nuts'', ''shellfish'', ''soy'']"

definition DIETARY_OPTIONS :: "string list" where
  "DIETARY_OPTIONS = [''vegetarian'', ''vegan'', ''gluten-free'']"

subsection \<open>Strings\<close>

definition is_space :: "char \<Rightarrow> bool" where
  "is_space c = (c \<in> set [CHR '' '', CHR 0x09, CHR 0x0A, CHR 0x0B, CHR 0x0C, CHR 0x0D])"

definition toLowerCase_char :: "char \<Rightarrow> char" where
  "toLowerCase_char c =
     (case map_of (zip ''ABCDEFGHIJKLMNOPQRSTUVWXYZ'' ''abcdefghijklmnopqrstuvwxyz'') c of
        Some l \<Rightarrow> l
      | None \<Rightarrow> c)"

definition toLowerCase :: "string \<Rightarrow> string" where
  "toLowerCase s = map toLowerCase_char s"

text \<open>\<^verbatim>\<open>String.prototype.trim\<close>.\<close>

definition trim :: "string \<Rightarrow> string" where
  "trim s = rev (dropWhile is_space (rev (dropWhile is_space s)))"

text \<open>\<^verbatim>\<open>String.prototype.includes\<close>: \<open>t\<close> occurs in \<open>s\<close> as a contiguous run.\<close>

definition startsWith :: "string \<Rightarrow> string \<Rightarrow> bool" where
  "startsWith s t = (take (length t) s = t)"

fun str_includes :: "string \<Rightarrow> string \<Rightarrow> bool" where
  "str_includes [] t = (t = [])"
| "str_includes (c # cs) t = (startsWith (c # cs) t \<or> str_includes cs t)"

text \<open>\<^verbatim>\<open>.replace(/[^a-z0-9\s-]/g, ' ')\<close>\<close>

definition keepChar :: "char \<Rightarrow> bool" where
  "keepChar c = (c \<in> set ''abcdefghijklmnopqrstuvwxyz0123456789-'' \<or> is_space c)"

definition replacePunctuation :: "string \<Rightarrow> string" where
  "replacePunctuation s = map (\<lambda>c. if keepChar c then c else CHR '' '') s"

text \<open>\<^verbatim>\<open>.replace(/\s+/g, ' ')\<close>: every maximal run of white space becomes one space.\<close>

function collapseSpaces :: "string \<Rightarrow> string" where
  "collapseSpaces [] = []"
| "collapseSpaces (c # cs) =
     (if is_space c then CHR '' '' # collapseSpaces (dropWhile is_space cs)
      else c # collapseSpaces cs)"
  by pat_completeness auto
termination
  by (relation "measure length") (auto simp: length_dropWhile_le less_Suc_eq_le)

definition normaliseText :: "string \<Rightarrow> string" where
  "normaliseText v = trim (collapseSpaces (replacePunctuation (toLowerCase v)))"

definition containsToken :: "string \<Rightarrow> string \<Rightarrow> bool" where
  "containsToken src token =
     (let normalizedSource = '' '' @ normaliseText src @ '' '';
          normalizedToken = '' '' @ normaliseText token @ '' ''
      in str_includes normalizedSource normalizedToken)"

subsection \<open>Preference checks (recipeEngine.ts)\<close>

definition dietarySatisfied :: "Recipe \<Rightarrow> string list \<Rightarrow> bool" where
  "dietarySatisfied r requested =
     (if length requested = 0 then True
      else list_all (\<lambda>tag.
             if tag = ''vegetarian''
             then ''vegetarian'' \<in> set (dietaryTags r) \<or> ''vegan'' \<in> set (dietaryTags r)
             else tag \<in> set (dietaryTags r)) requested)"

definition equipmentSatisfied :: "Recipe \<Rightarrow> string list \<Rightarrow> bool" where
  "equipmentSatisfied r available =
     (if length available = 0 then True
      else list_all (\<lambda>item. item \<in> set available) (equipment r))"

definition cuisineSatisfied :: "Recipe \<Rightarrow> string \<Rightarrow> bool" where
  "cuisineSatisfied r c =
     (if trim c = [] then True
      else str_includes (normaliseText (cuisine r)) (normaliseText c))"

definition allergenSatisfied :: "Recipe \<Rightarrow> string list \<Rightarrow> bool" where
  "allergenSatisfied r blocked =
     (if length blocked = 0 then True
      else \<not> list_ex (\<lambda>allergen. allergen \<in> set blocked) (allergens r))"

subsection \<open>Pantry matching\<close>

definition hasIngredient :: "string \<Rightarrow> string list \<Rightarrow> bool" where
  "hasIngredient ingredientName pantryItems =
     (if length pantryItems = 0 then False
      else list_ex (\<lambda>item.
             let normalizedPantry = normaliseText item;
                 normalizedIngredient = normaliseText ingredientName
             in containsToken normalizedPantry normalizedIngredient \<or>
                containsToken normalizedIngredient normalizedPantry) pantryItems)"

definition missingIngredients :: "Recipe \<Rightarrow> string list \<Rightarrow> Ingredient list" where
  "missingIngredients r pantryItems =
     filter (\<lambda>ingredient. \<not> hasIngredient (name ingredient) pantryItems) (ingredients r)"

definition Math_round :: "rat \<Rightarrow> int" where
  "Math_round x = \<lfloor>x + 1 / 2\<rfloor>"










subsection \<open>Scoring and selection\<close>

definition scoreRecipe :: "Recipe \<Rightarrow> string list \<Rightarrow> Preferences \<Rightarrow> ScoredCandidate" where
  "scoreRecipe r pantryItems preferences =
     (let ingredientTotal = length (ingredients r);
          missingTotal = length (missingIngredients r pantryItems);
          pantryCoverage = (if ingredientTotal = 0 then 0
                            else (of_nat ingredientTotal - of_nat missingTotal)
                                   / of_nat ingredientTotal);
          timeMatch = (cookTimeMinutes r \<le> maxCookTime preferences);
          cuisineMatch = cuisineSatisfied r (pref_cuisine preferences);
          dietaryMatch = dietarySatisfied r (dietary preferences);
          equipmentMatch = equipmentSatisfied r (pref_equipment preferences);
          s0 = pantryCoverage * 100;
          s1 = s0 + (if timeMatch then 12
                     else max (- 12) ((maxCookTime preferences - cookTimeMinutes r) / 5));
          s2 = s1 + (if cuisineMatch then 8 else - 4);
          s3 = s2 + (if dietaryMatch then 10 else - 50);
          s4 = s3 + (if equipmentMatch then 8 else - 30)
      in \<lparr> score = s4,
           strictMatch = (timeMatch \<and> cuisineMatch \<and> dietaryMatch \<and> equipmentMatch),
           recipe = r \<rparr>)"

text \<open>
  The body of the \<^verbatim>\<open>scored.forEach\<close> callback: once six recipes are selected nothing is
  added; otherwise the entry's recipe is appended unless a selected recipe has its id.
\<close>

definition backfillStep :: "Recipe list \<Rightarrow> ScoredCandidate \<Rightarrow> Recipe list" where
  "backfillStep selected entry =
     (if length selected \<ge> 6 then selected
      else if List.find (\<lambda>r. recipe_id r = recipe_id (recipe entry)) selected = None
           then selected @ [recipe entry]
           else selected)"

text \<open>
  \<^verbatim>\<open>Array.prototype.sort\<close> is stable; with the comparator \<^verbatim>\<open>b.score - a.score\<close> it sorts
  by descending score, which is the stable insertion sort on the negated score.
\<close>

definition allergenSafe :: "Recipe list \<Rightarrow> Preferences \<Rightarrow> Recipe list" where
  "allergenSafe recipes preferences =
     filter (\<lambda>r. allergenSatisfied r (allergensToAvoid preferences)) recipes"

definition generateRecipeOptions :: "Recipe list \<Rightarrow> string list \<Rightarrow> Preferences \<Rightarrow> Recipe list" where
  "generateRecipeOptions recipes pantryItems preferences =
     (let safe = allergenSafe recipes preferences;
          scored = sort_key (\<lambda>e. - score e)
                     (map (\<lambda>r. scoreRecipe r pantryItems preferences) safe);
          selected0 = map recipe (take 6 (filter strictMatch scored));
          selected = (if length selected0 < 3 then foldl backfillStep selected0 scored
                      else selected0)
      in if length selected < 3
         then take (min 3 (length safe)) safe
         else take 6 selected)"

text \<open>The strict matches of the allergen-safe pool, before the cut at six.\<close>

definition strictMatches :: "Recipe list \<Rightarrow> string list \<Rightarrow> Preferences \<Rightarrow> Recipe list" where
  "strictMatches recipes pantryItems preferences =
     filter (\<lambda>r. strictMatch (scoreRecipe r pantryItems preferences))
       (allergenSafe recipes preferences)"

subsection \<open>Scaling\<close>

definition roundQuantity :: "rat \<Rightarrow> rat" where
  "roundQuantity v =
     (if v \<ge> 50 then of_int (Math_round v)
      else if v \<ge> 10 then of_int (Math_round (v * 2)) / 2
      else of_int (Math_round (v * 10)) / 10)"

definition scaleIngredients :: "Ingredient list \<Rightarrow> rat \<Rightarrow> rat \<Rightarrow> Ingredient list" where
  "scaleIngredients ings currentServings targetServings =
     (if currentServings \<le> 0 \<or> targetServings \<le> 0 then ings
      else let factor = targetServings / currentServings
           in map (\<lambda>ingredient. ingredient\<lparr>quantity := roundQuantity (quantity ingredient * factor)\<rparr>)
                ings)"


subsection \<open>Untrusted JSON values\<close>

text \<open>
  What \<^verbatim>\<open>JSON.parse\<close> returns. \<^verbatim>\<open>JSON.parse\<close> itself belongs to the JavaScript runtime, not
  to this repository: the functions below take it as the parameter \<open>parse\<close>, \<open>None\<close> when it
  throws a \<^verbatim>\<open>SyntaxError\<close>. Likewise \<open>Number\<close> stands for \<^verbatim>\<open>Number(value)\<close> on a string,
  \<open>None\<close> when the result is not finite.
\<close>

datatype json =
  JNull | JBool bool | JNum rat | JStr string | JArr "json list" | JObj "(string \<times> json) list"

datatype error = TypeError | SyntaxError | Error string

text \<open>
  Reading a property: \<open>None\<close> is \<^verbatim>\<open>undefined\<close>. None of the property names read below is
  defined on a string, number, boolean or array, so only an object can have one. Reading a
  property of \<^verbatim>\<open>null\<close> throws; the callers below decide that before they read.
\<close>

definition getProp :: "json \<Rightarrow> string \<Rightarrow> json option" where
  "getProp v k = (case v of JObj kvs \<Rightarrow> map_of kvs k | _ \<Rightarrow> None)"

fun truthy :: "json \<Rightarrow> bool" where
  "truthy JNull = False"
| "truthy (JBool b) = b"
| "truthy (JNum n) = (n \<noteq> 0)"
| "truthy (JStr s) = (s \<noteq> [])"
| "truthy (JArr xs) = True"
| "truthy (JObj kvs) = True"

text \<open>\<^verbatim>\<open>typeof v === 'object'\<close>\<close>

fun typeofObject :: "json \<Rightarrow> bool" where
  "typeofObject JNull = True"
| "typeofObject (JArr xs) = True"
| "typeofObject (JObj kvs) = True"
| "typeofObject v = False"

subsection \<open>Field normaliser\<close>

definition difficultyValues :: "string list" where
  "difficultyValues = [''Easy'', ''Medium'', ''Hard'']"

definition equipmentValues :: "string list" where
  "equipmentValues = [''hob'', ''oven'', ''air-fryer'']"

definition normalizeString :: "json option \<Rightarrow> string \<Rightarrow> string" where
  "normalizeString v fallback = (case v of Some (JStr s) \<Rightarrow> trim s | _ \<Rightarrow> fallback)"

definition normalizeNumber :: "(string \<Rightarrow> rat option) \<Rightarrow> json option \<Rightarrow> rat \<Rightarrow> rat" where
  "normalizeNumber Number v fallback =
     (case v of
        Some (JNum n) \<Rightarrow> n
      | Some (JStr s) \<Rightarrow> (case Number s of Some parsed \<Rightarrow> parsed | None \<Rightarrow> fallback)
      | _ \<Rightarrow> fallback)"

text \<open>\<^verbatim>\<open>allowed.has(v) ? v : fallback\<close> for a set of strings: only a string can be a member.\<close>

definition allowedOr :: "string list \<Rightarrow> json option \<Rightarrow> string \<Rightarrow> string" where
  "allowedOr allowed v fallback =
     (case v of Some (JStr s) \<Rightarrow> if s \<in> set allowed then s else fallback | _ \<Rightarrow> fallback)"

text \<open>\<^verbatim>\<open>items.filter((item) => allowed.has(item))\<close>: the kept items are strings.\<close>

definition filterAllowed :: "string list \<Rightarrow> json list \<Rightarrow> string list" where
  "filterAllowed allowed items =
     List.map_filter (\<lambda>item. case item of JStr s \<Rightarrow> if s \<in> set allowed then Some s else None
                                | _ \<Rightarrow> None) items"

definition normalizeIngredient :: "(string \<Rightarrow> rat option) \<Rightarrow> json \<Rightarrow> Ingredient option" where
  "normalizeIngredient Number raw =
     (if \<not> truthy raw \<or> \<not> typeofObject raw then None
      else let nm = normalizeString (getProp raw ''name'') [] in
        if nm = [] then None
        else let u = allowedOr UNIT_OPTIONS (getProp raw ''unit'') ''g''
          in Some \<lparr> name = nm,
                    quantity = max 0 (normalizeNumber Number (getProp raw ''quantity'') 0),
                    unit = u,
                    optional = Some (case getProp raw ''optional'' of Some b \<Rightarrow> truthy b | None \<Rightarrow> False),
                    ingredient_notes = Some (normalizeString (getProp raw ''notes'') []) \<rparr>)"

definition normalizeStep :: "(string \<Rightarrow> rat option) \<Rightarrow> json \<Rightarrow> MethodStep option" where
  "normalizeStep Number raw =
     (if \<not> truthy raw \<or> \<not> typeofObject raw then None
      else let txt = normalizeString (getProp raw ''text'') [] in
        if txt = [] then None
        else let timer = normalizeNumber Number (getProp raw ''timerMinutes'') 0;
                 temperature = normalizeNumber Number (getProp raw ''temperatureC'') 0
          in Some \<lparr> step_text = txt,
                    timerMinutes = (if timer > 0 then Some timer else None),
                    step_notes = Some (normalizeString (getProp raw ''notes'') []),
                    temperatureC = (if temperature > 0 then Some temperature else None),
                    gasMark = Some (normalizeString (getProp raw ''gasMark'') []) \<rparr>)"

fun nat_to_string :: "nat \<Rightarrow> string" where
  "nat_to_string n =
     (if n < 10 then [''0123456789'' ! n]
      else nat_to_string (n div 10) @ [''0123456789'' ! (n mod 10)])"

declare nat_to_string.simps [simp del]

definition waterPlaceholder :: Ingredient where
  "waterPlaceholder =
     \<lparr> name = ''water'', quantity = 500, unit = ''ml'', optional = None, ingredient_notes = None \<rparr>"

definition placeholderStep :: "string \<Rightarrow> MethodStep" where
  "placeholderStep t =
     \<lparr> step_text = t, timerMinutes = None, step_notes = None, temperatureC = None, gasMark = None \<rparr>"

text \<open>\<^verbatim>\<open>xs.map((s) => normalizeString(s)).filter(Boolean)\<close>\<close>

definition normalizeStrings :: "json list \<Rightarrow> string list" where
  "normalizeStrings xs = filter (\<lambda>s. s \<noteq> []) (map (\<lambda>v. normalizeString (Some v) []) xs)"

text \<open>
  \<open>uuid\<close> is the value of \<^verbatim>\<open>crypto.randomUUID()\<close> in this call. The first property read,
  \<^verbatim>\<open>rawRecipe.ingredients\<close>, throws a \<^verbatim>\<open>TypeError\<close> when \<^verbatim>\<open>rawRecipe\<close> is \<^verbatim>\<open>null\<close>.
\<close>

definition normalizeRecipe ::
  "string \<Rightarrow> (string \<Rightarrow> rat option) \<Rightarrow> json \<Rightarrow> nat \<Rightarrow> error + Recipe" where
  "normalizeRecipe uuid Number rawRecipe index =
     (if rawRecipe = JNull then Inl TypeError
      else
        let ings = (case getProp rawRecipe ''ingredients'' of
                      Some (JArr xs) \<Rightarrow> List.map_filter (normalizeIngredient Number) xs
                    | _ \<Rightarrow> []);
            sts = (case getProp rawRecipe ''steps'' of
                     Some (JArr xs) \<Rightarrow> List.map_filter (normalizeStep Number) xs
                   | _ \<Rightarrow> [])
        in Inr \<lparr>
          recipe_id = ''llm-'' @ uuid,
          title = normalizeString (getProp rawRecipe ''title'') (''AI Recipe '' @ nat_to_string (index + 1)),
          description = normalizeString (getProp rawRecipe ''description'') ''AI-generated recipe.'',
          cuisine = normalizeString (getProp rawRecipe ''cuisine'') ''Fusion'',
          difficulty = allowedOr difficultyValues (getProp rawRecipe ''difficulty'') ''Easy'',
          cookTimeMinutes = max 5 (normalizeNumber Number (getProp rawRecipe ''cookTimeMinutes'') 30),
          servings = max 1 (normalizeNumber Number (getProp rawRecipe ''servings'') 4),
          dietaryTags = (case getProp rawRecipe ''dietaryTags'' of
                           Some (JArr xs) \<Rightarrow> filterAllowed DIETARY_OPTIONS xs
                         | _ \<Rightarrow> []),
          allergens = (case getProp rawRecipe ''allergens'' of
                         Some (JArr xs) \<Rightarrow> filterAllowed ALLERGEN_OPTIONS xs
                       | _ \<Rightarrow> []),
          equipment = (case getProp rawRecipe ''equipment'' of
                         Some (JArr xs) \<Rightarrow> filterAllowed equipmentValues xs
                       | _ \<Rightarrow> [''hob'']),
          ingredients = (if length ings > 0 then ings else [waterPlaceholder]),
          steps = (if length sts > 0 then sts
                   else [placeholderStep ''Prepare your ingredients and season to taste.'',
                         placeholderStep ''Cook until done and serve hot.'']),
          swapSuggestions = (case getProp rawRecipe ''swapSuggestions'' of
                               Some (JArr xs) \<Rightarrow> normalizeStrings xs
                             | _ \<Rightarrow> []),
          tips = (case getProp rawRecipe ''tips'' of
                    Some (JArr xs) \<Rightarrow> normalizeStrings xs
                  | _ \<Rightarrow> []),
          source = Some ''llm'' \<rparr>)"

text \<open>The Recipe invariants of the data model, on a normalised recipe.\<close>

definition recipeInvariants :: "Recipe \<Rightarrow> bool" where
  "recipeInvariants r =
     (ingredients r \<noteq> [] \<and> steps r \<noteq> [] \<and>
      list_all (\<lambda>i. unit i \<in> set UNIT_OPTIONS) (ingredients r) \<and>
      difficulty r \<in> set difficultyValues \<and>
      list_all (\<lambda>t. t \<in> set DIETARY_OPTIONS) (dietaryTags r) \<and>
      list_all (\<lambda>a. a \<in> set ALLERGEN_OPTIONS) (allergens r) \<and>
      list_all (\<lambda>e. e \<in> set equipmentValues) (equipment r))"

subsection \<open>Response extractor\<close>

text \<open>
  The match of \<^verbatim>\<open>/```(?:json)?\s*([\s\S]*?)\s*```/i\<close>, as its first capture group.
  At a start position the pattern needs three backticks; the greedy \<^verbatim>\<open>(?:json)?\<close> and
  \<^verbatim>\<open>\s*\<close> then take the tag and all white space, and the lazy group grows from there to
  the first position whose rest is white space followed by three backticks. Giving the tag
  or white space back cannot produce a match that this path misses (a closing fence cannot
  start inside the tag or the white space), so the first path decides. The leftmost start
  position with a match wins.
\<close>

definition closesFence :: "string \<Rightarrow> bool" where
  "closesFence s = startsWith (dropWhile is_space s) ''```''"

fun lazyCapture :: "string \<Rightarrow> string option" where
  "lazyCapture [] = None"
| "lazyCapture (c # cs) =
     (if closesFence (c # cs) then Some []
      else map_option ((#) c) (lazyCapture cs))"

definition fenceAt :: "string \<Rightarrow> string option" where
  "fenceAt s =
     (if startsWith s ''```''
      then let r = drop 3 s;
               r' = (if toLowerCase (take 4 r) = ''json'' then drop 4 r else r)
           in lazyCapture (dropWhile is_space r')
      else None)"

fun codeFenceMatch :: "string \<Rightarrow> string option" where
  "codeFenceMatch [] = None"
| "codeFenceMatch (c # cs) =
     (case fenceAt (c # cs) of Some captured \<Rightarrow> Some captured | None \<Rightarrow> codeFenceMatch cs)"

text \<open>\<^verbatim>\<open>indexOf\<close> and \<^verbatim>\<open>lastIndexOf\<close> of a character: \<open>-1\<close> when it does not occur.\<close>

fun indexOf :: "string \<Rightarrow> char \<Rightarrow> int" where
  "indexOf [] ch = - 1"
| "indexOf (c # cs) ch =
     (if c = ch then 0 else (let i = indexOf cs ch in if i < 0 then - 1 else i + 1))"

definition lastIndexOf :: "string \<Rightarrow> char \<Rightarrow> int" where
  "lastIndexOf s ch =
     (let i = indexOf (rev s) ch in if i < 0 then - 1 else int (length s) - 1 - i)"

text \<open>\<^verbatim>\<open>s.slice(b, e)\<close> for \<open>0 \<le> b\<close>.\<close>

definition slice :: "'a list \<Rightarrow> int \<Rightarrow> int \<Rightarrow> 'a list" where
  "slice s b e = take (nat (e - b)) (drop (nat b) s)"

text \<open>The candidate of the third strategy: from the first \<^verbatim>\<open>{\<close> to the last \<^verbatim>\<open>}\<close>.\<close>

definition braceSlice :: "string \<Rightarrow> string option" where
  "braceSlice rawText =
     (let start = indexOf rawText CHR ''{'';
          endIndex = lastIndexOf rawText CHR ''}''
      in if start \<ge> 0 \<and> endIndex > start then Some (slice rawText start (endIndex + 1)) else None)"

definition JSON_parse :: "(string \<Rightarrow> json option) \<Rightarrow> string \<Rightarrow> error + json" where
  "JSON_parse parse s = (case parse s of Some v \<Rightarrow> Inr v | None \<Rightarrow> Inl SyntaxError)"

definition extractJsonFromText :: "(string \<Rightarrow> json option) \<Rightarrow> string \<Rightarrow> error + json" where
  "extractJsonFromText parse rawText =
     (let directParse = (case parse rawText of Some v \<Rightarrow> v | None \<Rightarrow> JNull)
      in if truthy directParse then Inr directParse
         else case codeFenceMatch rawText of
                Some (c # cs) \<Rightarrow> JSON_parse parse (c # cs)
              | _ \<Rightarrow> (case braceSlice rawText of
                         Some candidate \<Rightarrow> JSON_parse parse candidate
                       | None \<Rightarrow> Inl (Error ''Model response did not include JSON.'')))"

text \<open>The first strategy yields a result: the whole text parses, to a truthy value.\<close>

definition directTruthy :: "(string \<Rightarrow> json option) \<Rightarrow> string \<Rightarrow> bool" where
  "directTruthy parse rawText = (case parse rawText of Some v \<Rightarrow> truthy v | None \<Rightarrow> False)"

subsection \<open>Generation orchestrator\<close>

record Generation =
  recipes :: "Recipe list"
  assistantSummary :: string

text \<open>
  A JavaScript \<^verbatim>\<open>number\<close> with its special values, for the argument \<^verbatim>\<open>recipeCount\<close>.
  \<^verbatim>\<open>Math.min\<close> and \<^verbatim>\<open>Math.max\<close> return \<^verbatim>\<open>NaN\<close> as soon as one argument is \<^verbatim>\<open>NaN\<close>.
\<close>

datatype number = NaN | NegInfinity | Finite rat | PosInfinity

fun Math_min :: "number \<Rightarrow> number \<Rightarrow> number" where
  "Math_min NaN y = NaN"
| "Math_min x NaN = NaN"
| "Math_min NegInfinity y = NegInfinity"
| "Math_min x NegInfinity = NegInfinity"
| "Math_min PosInfinity y = y"
| "Math_min x PosInfinity = x"
| "Math_min (Finite a) (Finite b) = Finite (min a b)"

fun Math_max :: "number \<Rightarrow> number \<Rightarrow> number" where
  "Math_max NaN y = NaN"
| "Math_max x NaN = NaN"
| "Math_max PosInfinity y = PosInfinity"
| "Math_max x PosInfinity = PosInfinity"
| "Math_max NegInfinity y = y"
| "Math_max x NegInfinity = x"
| "Math_max (Finite a) (Finite b) = Finite (max a b)"

text \<open>
  \<^verbatim>\<open>xs.slice(0, end)\<close>. The end is converted by \<^verbatim>\<open>ToIntegerOrInfinity\<close>: \<^verbatim>\<open>NaN\<close> becomes 0,
  a finite value is truncated towards zero; a negative end counts from the end of the
  list.
\<close>

definition sliceFromStart :: "'a list \<Rightarrow> number \<Rightarrow> 'a list" where
  "sliceFromStart xs e =
     (case e of
        NaN \<Rightarrow> []
      | NegInfinity \<Rightarrow> []
      | PosInfinity \<Rightarrow> xs
      | Finite v \<Rightarrow>
          (let k = (if v < 0 then \<lceil>v\<rceil> else \<lfloor>v\<rfloor>)
           in if k < 0 then take (nat (int (length xs) + k)) xs else take (nat k) xs))"

text \<open>An array \<^verbatim>\<open>map\<close> whose callback may throw: the first exception ends it.\<close>

fun collect :: "(error + 'a) list \<Rightarrow> error + 'a list" where
  "collect [] = Inr []"
| "collect (x # xs) =
     (case x of
        Inl e \<Rightarrow> Inl e
      | Inr v \<Rightarrow> (case collect xs of Inl e \<Rightarrow> Inl e | Inr vs \<Rightarrow> Inr (v # vs)))"

text \<open>
  \<^verbatim>\<open>callModel\<close> talks to the network. Its two outcomes, with and without the schema, are the
  inputs \<open>structured\<close> and \<open>unstructured\<close>: the text of the reply, or the exception thrown.
  The second request is made only when the first attempt throws. \<open>uuids i\<close> is the random
  identifier drawn for the recipe at index \<open>i\<close>.
\<close>

definition attempt :: "(string \<Rightarrow> json option) \<Rightarrow> error + string \<Rightarrow> error + json" where
  "attempt parse reply =
     (case reply of Inl e \<Rightarrow> Inl e | Inr text \<Rightarrow> extractJsonFromText parse text)"

definition obtainPayload ::
  "(string \<Rightarrow> json option) \<Rightarrow> error + string \<Rightarrow> error + string \<Rightarrow> error + json" where
  "obtainPayload parse structured unstructured =
     (case attempt parse structured of
        Inr payload \<Rightarrow> Inr payload
      | Inl e \<Rightarrow> attempt parse unstructured)"

text \<open>
  \<^verbatim>\<open>normalizedRecipes\<close>: every element of \<^verbatim>\<open>payload.recipes\<close> normalised with its index, the
  empty list when the field is not an array.
\<close>

definition normalizedRecipes ::
  "(string \<Rightarrow> rat option) \<Rightarrow> (nat \<Rightarrow> string) \<Rightarrow> json \<Rightarrow> error + Recipe list" where
  "normalizedRecipes Number uuids payload =
     (case getProp payload ''recipes'' of
        Some (JArr xs) \<Rightarrow>
          collect (map (\<lambda>(index, r). normalizeRecipe (uuids index) Number r index)
                     (enumerate 0 xs))
      | _ \<Rightarrow> Inr [])"

text \<open>
  The part of \<^verbatim>\<open>generateRecipesWithLlm\<close> after the payload is there. Reading
  \<^verbatim>\<open>payload.recipes\<close> throws when the payload is \<^verbatim>\<open>null\<close>.
\<close>

definition generateFromPayload ::
  "(string \<Rightarrow> rat option) \<Rightarrow> (nat \<Rightarrow> string) \<Rightarrow> number \<Rightarrow> json \<Rightarrow> error + Generation" where
  "generateFromPayload Number uuids recipeCount payload =
     (if payload = JNull then Inl TypeError
      else case normalizedRecipes Number uuids payload of
             Inl e \<Rightarrow> Inl e
           | Inr normalized \<Rightarrow>
               if length normalized = 0
               then Inl (Error ''Model returned no usable recipes.'')
               else Inr \<lparr>
                 recipes = sliceFromStart normalized
                             (Math_max (Finite 1) (Math_min (Finite 6) recipeCount)),
                 assistantSummary = normalizeString (getProp payload ''assistantSummary'')
                                      ''Recipes generated successfully.'' \<rparr>)"

definition generateRecipesWithLlm ::
  "(string \<Rightarrow> json option) \<Rightarrow> (string \<Rightarrow> rat option) \<Rightarrow> (nat \<Rightarrow> string) \<Rightarrow> number \<Rightarrow>
   error + string \<Rightarrow> error + string \<Rightarrow> error + Generation" where
  "generateRecipesWithLlm parse Number uuids recipeCount structured unstructured =
     (case obtainPayload parse structured unstructured of
        Inl e \<Rightarrow> Inl e
      | Inr payload \<Rightarrow> generateFromPayload Number uuids recipeCount payload)"

subsection \<open>Sample data\<close>

text \<open>Concrete recipes, preferences and replies on which the theorems below are run.\<close>

definition sampleIngredient :: "string \<Rightarrow> rat \<Rightarrow> Ingredient" where
  "sampleIngredient nm q =
     \<lparr> name = nm, quantity = q, unit = ''g'', optional = None, ingredient_notes = None \<rparr>"

definition sampleRecipe :: "string \<Rightarrow> string \<Rightarrow> rat \<Rightarrow> string list \<Rightarrow> Ingredient list \<Rightarrow> Recipe" where
  "sampleRecipe ident ttl minutes als ings =
     \<lparr> recipe_id = ident, title = ttl, description = ''A sample dish.'', cuisine = ''Italian'',
       difficulty = ''Easy'', cookTimeMinutes = minutes, servings = 4, dietaryTags = [],
       allergens = als, equipment = [''hob''], ingredients = ings,
       steps = [placeholderStep ''Cook until done and serve hot.''],
       swapSuggestions = [], tips = [], source = Some ''base'' \<rparr>"

definition samplePreferences :: Preferences where
  "samplePreferences =
     \<lparr> pref_servings = 4, maxCookTime = 45, pref_cuisine = [], dietary = [],
       allergensToAvoid = [''nuts''], pref_equipment = [] \<rparr>"

definition soup :: Recipe where
  "soup = sampleRecipe ''r1'' ''Tomato soup'' 30 [] [sampleIngredient ''tomatoes'' 400]"

definition risotto :: Recipe where
  "risotto = sampleRecipe ''r2'' ''Risotto'' 40 [''dairy'']
               [sampleIngredient ''rice'' 300, sampleIngredient ''butter'' 40,
                sampleIngredient ''onion'' 1]"

definition stew :: Recipe where
  "stew = sampleRecipe ''r3'' ''Bean stew'' 90 [] []"

definition pesto :: Recipe where
  "pesto = sampleRecipe ''r4'' ''Pesto pasta'' 20 [''nuts''] [sampleIngredient ''pasta'' 200]"

definition roast :: Recipe where
  "roast = sampleRecipe ''r5'' ''Roast roots'' 75 [] [sampleIngredient ''carrot'' 500]"

definition pie :: Recipe where
  "pie = sampleRecipe ''r6'' ''Pie'' 120 [''gluten''] [sampleIngredient ''flour'' 250]"

text \<open>A second recipe that carries the identifier of \<open>soup\<close>.\<close>

definition soupCopy :: Recipe where
  "soupCopy = sampleRecipe ''r1'' ''Tomato soup (imported)'' 35 [] []"

text \<open>
  Replies of the model, and a stand-in for \<^verbatim>\<open>JSON.parse\<close> that agrees with it on every
  string the examples hand to it: it parses the three JSON documents below and throws on
  everything else the examples ask about (text with a fence around it, \<^verbatim>\<open>not json\<close>).
\<close>

definition emptyRecipesJson :: string where
  \<open>emptyRecipesJson = ''{"assistantSummary":"ok","recipes":[]}''\<close>

definition oneRecipeJson :: string where
  \<open>oneRecipeJson = ''{"recipes":[{"title":"Lentil bowl","equipment":["microwave"]}]}''\<close>

definition sampleParse :: "string \<Rightarrow> json option" where
  "sampleParse =
     map_of
       [(''{}'', JObj []),
        (emptyRecipesJson, JObj [(''assistantSummary'', JStr ''ok''), (''recipes'', JArr [])]),
        (oneRecipeJson,
         JObj [(''recipes'',
                JArr [JObj [(''title'', JStr ''Lentil bowl''),
                            (''equipment'', JArr [JStr ''microwave''])]])])]"

definition fencedReply :: string where
  "fencedReply = ''Here you go: ```json '' @ emptyRecipesJson @ '' ``` Enjoy!''"

definition badFenceReply :: string where
  "badFenceReply = ''```not json``` {}''"

definition noNumbers :: "string \<Rightarrow> rat option" where
  "noNumbers s = None"

text \<open>A raw recipe with wrong types, an unknown unit and an extra field.\<close>

definition messyRecipe :: json where
  "messyRecipe =
     JObj [(''title'', JNum 7),
           (''difficulty'', JStr ''Impossible''),
           (''equipment'', JArr [JStr ''microwave'', JNum 3]),
           (''allergens'', JArr [JStr ''nuts'', JStr ''gold'']),
           (''ingredients'', JArr [JObj [(''name'', JStr '' Rice ''), (''unit'', JStr ''bucket'')],
                                   JStr ''salt'']),
           (''steps'', JStr ''just cook it''),
           (''extra'', JBool True)]"

definition sampleUuids :: "nat \<Rightarrow> string" where
  "sampleUuids i = ''uuid-'' @ nat_to_string i"

text \<open>A raw recipe without an equipment field.\<close>

definition bareRecipe :: json where
  "bareRecipe = JObj [(''title'', JStr ''Soup'')]"

text \<open>Raw recipes whose equipment array holds no allowed value, and some.\<close>

definition microwaveRecipe :: json where
  "microwaveRecipe = JObj [(''title'', JStr ''Mug cake''), (''equipment'', JArr [JStr ''microwave''])]"

definition mixedRecipe :: json where
  "mixedRecipe =
     JObj [(''equipment'', JArr [JStr ''oven'', JStr ''microwave'', JNum 1, JStr ''hob''])]"


section \<open>Verification\<close>

subsection \<open>Selection: helper facts\<close>

lemma recipe_scoreRecipe [simp]: "recipe (scoreRecipe r p prefs) = r"
  by (simp add: scoreRecipe_def Let_def)

lemma backfill_set:
  "set (foldl backfillStep sel xs) \<subseteq> set sel \<union> recipe ` set xs"
proof (induction xs arbitrary: sel)
  case Nil
  then show ?case by simp
next
  case (Cons x xs)
  have "set (backfillStep sel x) \<subseteq> set sel \<union> {recipe x}"
    by (auto simp: backfillStep_def)
  with Cons.IH [of "backfillStep sel x"] show ?case by auto
qed

lemma backfill_distinct:
  "distinct (map recipe_id sel) \<Longrightarrow> distinct (map recipe_id (foldl backfillStep sel xs))"
proof (induction xs arbitrary: sel)
  case Nil
  then show ?case by simp
next
  case (Cons x xs)
  have "distinct (map recipe_id (backfillStep sel x))"
    using Cons.prems by (auto simp: backfillStep_def find_None_iff)
  then show ?case using Cons.IH by simp
qed

lemma backfill_length:
  "length sel \<le> 6 \<Longrightarrow> distinct (map recipe_id sel) \<Longrightarrow>
   length (foldl backfillStep sel xs) =
     min 6 (card (recipe_id ` set sel \<union> recipe_id ` recipe ` set xs))"
proof (induction xs arbitrary: sel)
  case Nil
  then show ?case using distinct_card [of "map recipe_id sel"] by simp
next
  case (Cons x xs)
  let ?A = "recipe_id ` set sel"
  let ?B = "recipe_id ` recipe ` set xs"
  have cardA: "card ?A = length sel"
    using Cons.prems(2) distinct_card [of "map recipe_id sel"] by simp
  show ?case
  proof (cases "length sel \<ge> 6")
    case True
    then have six: "length sel = 6" using Cons.prems(1) by simp
    have step: "backfillStep sel x = sel" using True by (simp add: backfillStep_def)
    have fin: "finite (?A \<union> ?B)" "finite (?A \<union> recipe_id ` recipe ` set (x # xs))" by simp_all
    have "card ?A \<le> card (?A \<union> ?B)" by (rule card_mono) auto
    moreover have "card ?A \<le> card (?A \<union> recipe_id ` recipe ` set (x # xs))"
      by (rule card_mono) auto
    ultimately show ?thesis
      using Cons.IH [of sel] Cons.prems step six cardA by simp
  next
    case False
    show ?thesis
    proof (cases "recipe_id (recipe x) \<in> ?A")
      case True
      then have step: "backfillStep sel x = sel"
        using False by (auto simp: backfillStep_def find_None_iff)
      have "?A \<union> recipe_id ` recipe ` set (x # xs) = ?A \<union> ?B" using True by auto
      then show ?thesis using Cons.IH [of sel] Cons.prems step by simp
    next
      case notin: False
      then have "\<forall>r\<in>set sel. recipe_id r \<noteq> recipe_id (recipe x)" by (metis imageI)
      then have step: "backfillStep sel x = sel @ [recipe x]"
        using False by (simp add: backfillStep_def find_None_iff)
      have d: "distinct (map recipe_id (sel @ [recipe x]))" using Cons.prems(2) notin by auto
      have l: "length (sel @ [recipe x]) \<le> 6" using False by simp
      have "recipe_id ` set (sel @ [recipe x]) \<union> ?B = ?A \<union> recipe_id ` recipe ` set (x # xs)"
        by auto
      then show ?thesis using Cons.IH [OF l d] step by simp
    qed
  qed
qed

lemma allergenSatisfied_disjoint:
  "allergenSatisfied r blocked \<Longrightarrow> set (allergens r) \<inter> set blocked = {}"
  by (auto simp: allergenSatisfied_def list_ex_iff split: if_splits)

lemma scored_recipes_mset:
  "mset (map recipe (sort_key f (map (\<lambda>r. scoreRecipe r p prefs) safe))) = mset safe"
proof -
  have "mset (map recipe (sort_key f (map (\<lambda>r. scoreRecipe r p prefs) safe)))
        = image_mset recipe (mset (map (\<lambda>r. scoreRecipe r p prefs) safe))"
    by (simp only: mset_map mset_sort)
  also have "\<dots> = mset safe"
    by (simp add: multiset.map_comp comp_def)
  finally show ?thesis .
qed

lemma scored_recipes_set:
  "recipe ` set (sort_key f (map (\<lambda>r. scoreRecipe r p prefs) safe)) = set safe"
  using scored_recipes_mset [of f p prefs safe, THEN arg_cong, of set_mset] by simp

lemma scored_recipes_distinct:
  "distinct (map recipe_id safe) \<Longrightarrow>
   distinct (map recipe_id (map recipe (sort_key f (map (\<lambda>r. scoreRecipe r p prefs) safe))))"
proof -
  assume d: "distinct (map recipe_id safe)"
  have "mset (map recipe_id (map recipe (sort_key f (map (\<lambda>r. scoreRecipe r p prefs) safe))))
        = mset (map recipe_id safe)"
    using scored_recipes_mset [of f p prefs safe] by (metis mset_map)
  then show ?thesis using d by (metis mset_eq_imp_distinct_iff)
qed

lemma distinct_map_take_filter:
  "distinct (map g xs) \<Longrightarrow> distinct (map g (take n (filter P xs)))"
  by (metis distinct_map_filter distinct_take take_map)

lemma generateRecipeOptions_subset:
  "set (generateRecipeOptions corpus p prefs) \<subseteq> set (allergenSafe corpus prefs)"
proof -
  let ?safe = "allergenSafe corpus prefs"
  let ?scored = "sort_key (\<lambda>e. - score e) (map (\<lambda>r. scoreRecipe r p prefs) ?safe)"
  let ?sel0 = "map recipe (take 6 (filter strictMatch ?scored))"
  have s0: "set ?sel0 \<subseteq> set ?safe"
    using scored_recipes_set [of "\<lambda>e. - score e" p prefs ?safe]
    by (auto dest!: in_set_takeD)
  have bf: "set (foldl backfillStep ?sel0 ?scored) \<subseteq> set ?safe"
    using backfill_set [of ?sel0 ?scored] s0
      scored_recipes_set [of "\<lambda>e. - score e" p prefs ?safe] by blast
  have tk: "\<And>n xs. set (take n xs) \<subseteq> set (xs :: Recipe list)" by (simp add: set_take_subset)
  show ?thesis
    unfolding generateRecipeOptions_def Let_def
    using s0 bf tk by (smt (verit) subset_trans)
qed

lemma strict_filter_length:
  "length (filter strictMatch (sort_key f (map (\<lambda>r. scoreRecipe r p prefs) safe)))
   = length (filter (\<lambda>r. strictMatch (scoreRecipe r p prefs)) safe)"
proof -
  have "mset (filter strictMatch (sort_key f (map (\<lambda>r. scoreRecipe r p prefs) safe)))
        = mset (filter strictMatch (map (\<lambda>r. scoreRecipe r p prefs) safe))"
    by (simp only: mset_filter mset_sort)
  then have "length (filter strictMatch (sort_key f (map (\<lambda>r. scoreRecipe r p prefs) safe)))
        = length (filter strictMatch (map (\<lambda>r. scoreRecipe r p prefs) safe))"
    by (metis size_mset)
  also have "\<dots> = length (filter (\<lambda>r. strictMatch (scoreRecipe r p prefs)) safe)"
    by (simp add: filter_map comp_def)
  finally show ?thesis .
qed

lemma selected0_distinct:
  assumes "distinct (map recipe_id safe)"
  shows "distinct (map recipe_id (map recipe (take 6 (filter strictMatch
           (sort_key f (map (\<lambda>r. scoreRecipe r p prefs) safe))))))"
proof -
  have "distinct (map (recipe_id \<circ> recipe) (sort_key f (map (\<lambda>r. scoreRecipe r p prefs) safe)))"
    using scored_recipes_distinct [OF assms, of f p prefs] by simp
  then have "distinct (map (recipe_id \<circ> recipe) (take 6 (filter strictMatch
           (sort_key f (map (\<lambda>r. scoreRecipe r p prefs) safe)))))"
    by (rule distinct_map_take_filter)
  then show ?thesis by simp
qed

subsection \<open>Selection: size and identifiers of the result\<close>

text \<open>
  Claim C1, as amended. Whenever the corpus has at least three recipes free of the avoided
  allergens, \<open>generateRecipeOptions\<close> returns between 3 and 6 recipes, for every pantry and
  every preferences record. The identifiers of the result are pairwise distinct provided
  those of the allergen-safe recipes of the corpus are: the function never compares the
  strict matches with each other, and the small-pool fallback returns a prefix of the
  pool as it is.
\<close>

theorem generateRecipeOptions_count_and_ids:
  assumes "3 \<le> length (allergenSafe corpus preferences)"
  shows "3 \<le> length (generateRecipeOptions corpus pantryItems preferences) \<and>
         length (generateRecipeOptions corpus pantryItems preferences) \<le> 6 \<and>
         (distinct (map recipe_id (allergenSafe corpus preferences)) \<longrightarrow>
            distinct (map recipe_id (generateRecipeOptions corpus pantryItems preferences)))"
proof -
  define safe where "safe = allergenSafe corpus preferences"
  define scored where
    "scored = sort_key (\<lambda>e. - score e) (map (\<lambda>r. scoreRecipe r pantryItems preferences) safe)"
  define sel0 where "sel0 = map recipe (take 6 (filter strictMatch scored))"
  define sel where "sel = (if length sel0 < 3 then foldl backfillStep sel0 scored else sel0)"
  have res: "generateRecipeOptions corpus pantryItems preferences =
               (if length sel < 3 then take (min 3 (length safe)) safe else take 6 sel)"
    unfolding generateRecipeOptions_def Let_def safe_def scored_def sel0_def sel_def
    by (rule refl)
  have n: "3 \<le> length safe" using assms by (simp add: safe_def)
  have lo: "3 \<le> length (generateRecipeOptions corpus pantryItems preferences)"
    unfolding res using n by simp
  have hi: "length (generateRecipeOptions corpus pantryItems preferences) \<le> 6"
    unfolding res by (auto simp: min_def)
  have ids: "distinct (map recipe_id (generateRecipeOptions corpus pantryItems preferences))"
    if d: "distinct (map recipe_id safe)"
  proof -
    have d0: "distinct (map recipe_id sel0)"
      unfolding sel0_def scored_def by (rule selected0_distinct [OF d])
    have dsel: "distinct (map recipe_id sel)"
      unfolding sel_def using d0 backfill_distinct [OF d0, of scored] by simp
    have tk: "\<And>n xs. distinct (map recipe_id xs) \<Longrightarrow> distinct (map recipe_id (take n xs))"
      by (metis distinct_take take_map)
    show ?thesis unfolding res using tk [OF d] tk [OF dsel] by presburger
  qed
  show ?thesis using lo hi ids by (simp add: safe_def)
qed

theorem generateRecipeOptions_count_and_ids_witness:
  "3 \<le> length (allergenSafe [soup, pesto, risotto, stew, roast, pie] samplePreferences) \<and>
   distinct (map recipe_id (allergenSafe [soup, pesto, risotto, stew, roast, pie] samplePreferences)) \<and>
   3 \<le> length (generateRecipeOptions [soup, pesto, risotto, stew, roast, pie] [''onion''] samplePreferences) \<and>
   length (generateRecipeOptions [soup, pesto, risotto, stew, roast, pie] [''onion''] samplePreferences) \<le> 6 \<and>
   distinct (map recipe_id
     (generateRecipeOptions [soup, pesto, risotto, stew, roast, pie] [''onion''] samplePreferences))"
proof -
  have n: "3 \<le> length (allergenSafe [soup, pesto, risotto, stew, roast, pie] samplePreferences)"
    by code_simp
  have d: "distinct (map recipe_id
             (allergenSafe [soup, pesto, risotto, stew, roast, pie] samplePreferences))"
    by code_simp
  from generateRecipeOptions_count_and_ids [OF n, of "[''onion'']"] n d show ?thesis
    by blast
qed

text \<open>
  Claim C1 as stated fails on a corpus in which two recipes carry one identifier: all three
  recipes below are free of the avoided allergen and are strict matches, so all three are
  returned, two of them with the identifier \<open>r1\<close>.
\<close>

theorem generateRecipeOptions_duplicate_ids_counterexample:
  "3 \<le> length (allergenSafe [soup, soupCopy, risotto] samplePreferences) \<and>
   map recipe_id (generateRecipeOptions [soup, soupCopy, risotto] [''onion''] samplePreferences)
     = [''r2'', ''r1'', ''r1''] \<and>
   \<not> distinct (map recipe_id
         (generateRecipeOptions [soup, soupCopy, risotto] [''onion''] samplePreferences))"
  by code_simp

subsection \<open>Selection: the allergen filter\<close>

text \<open>
  Claim C3. For every corpus, pantry and preferences, no recipe returned by
  \<open>generateRecipeOptions\<close> contains an avoided allergen: its allergens are disjoint from
  \<open>allergensToAvoid\<close>, on the strict path, after backfilling and in the small-pool fallback.
\<close>

theorem generateRecipeOptions_allergen_free:
  "\<forall>r \<in> set (generateRecipeOptions corpus pantryItems preferences).
     set (allergens r) \<inter> set (allergensToAvoid preferences) = {}"
proof
  fix r
  assume "r \<in> set (generateRecipeOptions corpus pantryItems preferences)"
  then have "r \<in> set (allergenSafe corpus preferences)"
    using generateRecipeOptions_subset by blast
  then have "allergenSatisfied r (allergensToAvoid preferences)"
    by (simp add: allergenSafe_def)
  then show "set (allergens r) \<inter> set (allergensToAvoid preferences) = {}"
    by (rule allergenSatisfied_disjoint)
qed

theorem generateRecipeOptions_allergen_free_witness:
  "risotto \<in> set (generateRecipeOptions [soup, pesto, risotto, stew, roast, pie] [''onion''] samplePreferences) \<and>
   set (allergens risotto) \<inter> set (allergensToAvoid samplePreferences) = {}"
proof -
  have m: "risotto \<in> set (generateRecipeOptions [soup, pesto, risotto, stew, roast, pie]
                            [''onion''] samplePreferences)"
    by code_simp
  from generateRecipeOptions_allergen_free [rule_format, OF m] m show ?thesis
    by blast
qed

subsection \<open>Selection: backfilling\<close>

text \<open>
  Claim C6, as amended. When fewer than three strict matches exist and the allergen-safe
  pool has \<open>n \<ge> 3\<close> recipes with pairwise distinct identifiers, backfilling from the sorted
  list goes on until six recipes are selected or the list is exhausted: the result has
  exactly \<open>min 6 n\<close> recipes, not 3.
\<close>

theorem generateRecipeOptions_backfill_count:
  assumes "3 \<le> length (allergenSafe corpus preferences)"
    and "distinct (map recipe_id (allergenSafe corpus preferences))"
    and "length (strictMatches corpus pantryItems preferences) < 3"
  shows "length (generateRecipeOptions corpus pantryItems preferences)
           = min 6 (length (allergenSafe corpus preferences))"
proof -
  define safe where "safe = allergenSafe corpus preferences"
  define scored where
    "scored = sort_key (\<lambda>e. - score e) (map (\<lambda>r. scoreRecipe r pantryItems preferences) safe)"
  define sel0 where "sel0 = map recipe (take 6 (filter strictMatch scored))"
  define sel where "sel = foldl backfillStep sel0 scored"
  have d: "distinct (map recipe_id safe)" and n: "3 \<le> length safe"
    using assms by (simp_all add: safe_def)
  have "length (filter strictMatch scored) < 3"
    using assms(3) strict_filter_length [of "\<lambda>e. - score e" pantryItems preferences safe]
    by (simp add: strictMatches_def scored_def safe_def)
  then have l0: "length sel0 < 3" by (simp add: sel0_def)
  have d0: "distinct (map recipe_id sel0)"
    unfolding sel0_def scored_def by (rule selected0_distinct [OF d])
  have sub: "recipe_id ` set sel0 \<subseteq> recipe_id ` recipe ` set scored"
    unfolding sel0_def by (auto dest!: in_set_takeD)
  have ids: "recipe_id ` recipe ` set scored = set (map recipe_id safe)"
    unfolding scored_def
    using scored_recipes_set [of "\<lambda>e. - score e" pantryItems preferences safe] by simp
  have "length sel = min 6 (card (recipe_id ` set sel0 \<union> recipe_id ` recipe ` set scored))"
    unfolding sel_def using l0 d0 by (intro backfill_length) simp_all
  also have "recipe_id ` set sel0 \<union> recipe_id ` recipe ` set scored = set (map recipe_id safe)"
    using sub ids by blast
  also have "card (set (map recipe_id safe)) = length safe"
    using distinct_card [OF d] by simp
  finally have lsel: "length sel = min 6 (length safe)" .
  define chosen where "chosen = (if length sel0 < 3 then foldl backfillStep sel0 scored else sel0)"
  have "generateRecipeOptions corpus pantryItems preferences =
               (if length chosen < 3 then take (min 3 (length safe)) safe else take 6 chosen)"
    unfolding generateRecipeOptions_def Let_def safe_def scored_def sel0_def chosen_def
    by (rule refl)
  moreover have "chosen = sel" using l0 by (simp add: chosen_def sel_def)
  ultimately have res: "generateRecipeOptions corpus pantryItems preferences =
               (if length sel < 3 then take (min 3 (length safe)) safe else take 6 sel)"
    by simp
  show ?thesis unfolding res using lsel n by (auto simp: min_def safe_def)
qed

theorem generateRecipeOptions_backfill_count_witness:
  "3 \<le> length (allergenSafe [soup, pesto, risotto, stew, roast, pie] samplePreferences) \<and>
   length (strictMatches [soup, pesto, risotto, stew, roast, pie] [''onion''] samplePreferences) < 3 \<and>
   length (generateRecipeOptions [soup, pesto, risotto, stew, roast, pie] [''onion''] samplePreferences)
     = min 6 (length (allergenSafe [soup, pesto, risotto, stew, roast, pie] samplePreferences))"
proof -
  have n: "3 \<le> length (allergenSafe [soup, pesto, risotto, stew, roast, pie] samplePreferences)"
    by code_simp
  have d: "distinct (map recipe_id
             (allergenSafe [soup, pesto, risotto, stew, roast, pie] samplePreferences))"
    by code_simp
  have k: "length (strictMatches [soup, pesto, risotto, stew, roast, pie] [''onion'']
             samplePreferences) < 3"
    by code_simp
  from generateRecipeOptions_backfill_count [OF n d k] n k show ?thesis
    by blast
qed

text \<open>
  Claim C6 as stated fails: with two strict matches and five allergen-safe recipes of
  distinct identifiers, five recipes are returned.
\<close>

theorem generateRecipeOptions_backfill_counterexample:
  "length (strictMatches [soup, pesto, risotto, stew, roast, pie] [''onion''] samplePreferences) = 2 \<and>
   length (allergenSafe [soup, pesto, risotto, stew, roast, pie] samplePreferences) = 5 \<and>
   distinct (map recipe_id (allergenSafe [soup, pesto, risotto, stew, roast, pie] samplePreferences)) \<and>
   map recipe_id (generateRecipeOptions [soup, pesto, risotto, stew, roast, pie] [''onion''] samplePreferences)
     = [''r2'', ''r1'', ''r5'', ''r3'', ''r6''] \<and>
   length (generateRecipeOptions [soup, pesto, risotto, stew, roast, pie] [''onion''] samplePreferences) \<noteq> 3"
  by code_simp

subsection \<open>Pantry fit\<close>





















subsection \<open>Scaling\<close>








text \<open>
  Claim C10. \<open>scaleIngredients\<close> returns its input list unchanged, with no quantity
  rounded, whenever the current or the target servings are not positive.
\<close>

theorem scaleIngredients_nonpositive_unchanged:
  "currentServings \<le> 0 \<or> targetServings \<le> 0 \<Longrightarrow>
     scaleIngredients ings currentServings targetServings = ings"
  by (simp add: scaleIngredients_def)

theorem scaleIngredients_nonpositive_unchanged_witness:
  "((0::rat) \<le> 0 \<or> (2::rat) \<le> 0) \<and>
   scaleIngredients [sampleIngredient ''saffron'' (1 / 3)] 0 2 = [sampleIngredient ''saffron'' (1 / 3)]"
  using scaleIngredients_nonpositive_unchanged [of 0 2 "[sampleIngredient ''saffron'' (1 / 3)]"]
  by simp

subsection \<open>Field normaliser\<close>

lemma in_map_filterD: "y \<in> set (List.map_filter f xs) \<Longrightarrow> \<exists>x\<in>set xs. f x = Some y"
  by (induction xs) (auto split: option.splits)

lemma allowedOr_mem: "fallback \<in> set allowed \<Longrightarrow> allowedOr allowed v fallback \<in> set allowed"
  by (simp add: allowedOr_def split: option.splits json.splits)

lemma filterAllowed_all: "list_all (\<lambda>x. x \<in> set allowed) (filterAllowed allowed items)"
  unfolding list_all_iff filterAllowed_def
  by (auto dest!: in_map_filterD split: json.splits if_splits)

lemma normalizeIngredient_unit:
  "normalizeIngredient Number raw = Some i \<Longrightarrow> unit i \<in> set UNIT_OPTIONS"
proof -
  assume a: "normalizeIngredient Number raw = Some i"
  have g: "''g'' \<in> set UNIT_OPTIONS" by (simp add: UNIT_OPTIONS_def)
  from a have "unit i = allowedOr UNIT_OPTIONS (getProp raw ''unit'') ''g''"
    by (auto simp: normalizeIngredient_def Let_def split: if_splits)
  then show ?thesis using allowedOr_mem [OF g] by simp
qed

lemma normalized_ingredients_units:
  "list_all (\<lambda>i. unit i \<in> set UNIT_OPTIONS) (List.map_filter (normalizeIngredient Number) xs)"
  unfolding list_all_iff by (auto dest!: in_map_filterD dest: normalizeIngredient_unit)

lemma normalizeRecipe_null: "normalizeRecipe uuid Number JNull index = Inl TypeError"
  by (simp add: normalizeRecipe_def)

lemma normalizeRecipe_returns:
  "rawRecipe \<noteq> JNull \<Longrightarrow> \<exists>r. normalizeRecipe uuid Number rawRecipe index = Inr r"
  by (simp add: normalizeRecipe_def Let_def)

lemma normalizeRecipe_ingredients:
  assumes "normalizeRecipe uuid Number rawRecipe index = Inr r"
  shows "ingredients r = [waterPlaceholder] \<or>
         (\<exists>xs. ingredients r = List.map_filter (normalizeIngredient Number) xs \<and> ingredients r \<noteq> [])"
proof (cases "rawRecipe = JNull")
  case True
  with assms show ?thesis by (simp add: normalizeRecipe_def)
next
  case False
  define ings where "ings = (case getProp rawRecipe ''ingredients'' of
                      Some (JArr xs) \<Rightarrow> List.map_filter (normalizeIngredient Number) xs
                    | _ \<Rightarrow> [])"
  have "ingredients r = (if length ings > 0 then ings else [waterPlaceholder])"
    using assms False unfolding normalizeRecipe_def Let_def ings_def by auto
  moreover have "ings = [] \<or> (\<exists>xs. ings = List.map_filter (normalizeIngredient Number) xs)"
    unfolding ings_def by (auto split: option.splits json.splits)
  ultimately show ?thesis by auto
qed

lemma normalizeRecipe_steps:
  assumes "normalizeRecipe uuid Number rawRecipe index = Inr r"
  shows "steps r \<noteq> []"
proof (cases "rawRecipe = JNull")
  case True
  with assms show ?thesis by (simp add: normalizeRecipe_def)
next
  case False
  define sts where "sts = (case getProp rawRecipe ''steps'' of
                     Some (JArr xs) \<Rightarrow> List.map_filter (normalizeStep Number) xs
                   | _ \<Rightarrow> [])"
  have "steps r = (if length sts > 0 then sts
                   else [placeholderStep ''Prepare your ingredients and season to taste.'',
                         placeholderStep ''Cook until done and serve hot.''])"
    using assms False unfolding normalizeRecipe_def Let_def sts_def by auto
  then show ?thesis by auto
qed

lemma normalizeRecipe_enums:
  assumes "normalizeRecipe uuid Number rawRecipe index = Inr r"
  shows "difficulty r = allowedOr difficultyValues (getProp rawRecipe ''difficulty'') ''Easy''"
    and "dietaryTags r = (case getProp rawRecipe ''dietaryTags'' of
                           Some (JArr xs) \<Rightarrow> filterAllowed DIETARY_OPTIONS xs | _ \<Rightarrow> [])"
    and "allergens r = (case getProp rawRecipe ''allergens'' of
                           Some (JArr xs) \<Rightarrow> filterAllowed ALLERGEN_OPTIONS xs | _ \<Rightarrow> [])"
    and "equipment r = (case getProp rawRecipe ''equipment'' of
                           Some (JArr xs) \<Rightarrow> filterAllowed equipmentValues xs | _ \<Rightarrow> [''hob''])"
  using assms unfolding normalizeRecipe_def Let_def
  by (auto split: if_splits)

text \<open>
  Claim C2. \<open>normalizeRecipe\<close> applied to any raw object, whatever the types of its fields
  and whichever fields are missing or extra, returns a recipe (it does not throw), and the
  recipe satisfies the Recipe invariants: ingredients and steps are not empty, and unit,
  difficulty, dietary tags, allergens and equipment are members of their allowed sets.
  The same holds for every raw value other than \<^verbatim>\<open>null\<close>.
\<close>

theorem normalizeRecipe_safe:
  assumes "rawRecipe \<noteq> JNull"
  shows "\<exists>r. normalizeRecipe uuid Number rawRecipe index = Inr r \<and> recipeInvariants r"
proof -
  obtain r where r: "normalizeRecipe uuid Number rawRecipe index = Inr r"
    using normalizeRecipe_returns [OF assms] by blast
  have ing: "ingredients r \<noteq> []"
    using normalizeRecipe_ingredients [OF r] by auto
  have st: "steps r \<noteq> []"
    by (rule normalizeRecipe_steps [OF r])
  have "unit waterPlaceholder \<in> set UNIT_OPTIONS"
    by (simp add: waterPlaceholder_def UNIT_OPTIONS_def)
  then have un: "list_all (\<lambda>i. unit i \<in> set UNIT_OPTIONS) (ingredients r)"
    using normalizeRecipe_ingredients [OF r] normalized_ingredients_units [of Number]
    by auto
  have "''Easy'' \<in> set difficultyValues" by (simp add: difficultyValues_def)
  then have di: "difficulty r \<in> set difficultyValues"
    unfolding normalizeRecipe_enums(1) [OF r] by (rule allowedOr_mem)
  have dt: "list_all (\<lambda>t. t \<in> set DIETARY_OPTIONS) (dietaryTags r)"
    unfolding normalizeRecipe_enums(2) [OF r]
    using filterAllowed_all [of DIETARY_OPTIONS]
    by (simp split: option.splits json.splits)
  have al: "list_all (\<lambda>t. t \<in> set ALLERGEN_OPTIONS) (allergens r)"
    unfolding normalizeRecipe_enums(3) [OF r]
    using filterAllowed_all [of ALLERGEN_OPTIONS]
    by (simp split: option.splits json.splits)
  have eq: "list_all (\<lambda>t. t \<in> set equipmentValues) (equipment r)"
    unfolding normalizeRecipe_enums(4) [OF r]
    using filterAllowed_all [of equipmentValues]
    by (simp add: equipmentValues_def split: option.splits json.splits)
  show ?thesis
    using r ing st un di dt al eq by (simp add: recipeInvariants_def)
qed

theorem normalizeRecipe_safe_witness:
  "messyRecipe \<noteq> JNull \<and>
   (\<exists>r. normalizeRecipe ''u1'' noNumbers messyRecipe 0 = Inr r \<and> recipeInvariants r)"
proof -
  have h: "messyRecipe \<noteq> JNull" unfolding messyRecipe_def by (rule json.distinct)
  from h normalizeRecipe_safe [OF h, of "''u1''" noNumbers 0] show ?thesis
    by (rule conjI)
qed

text \<open>The filter keeps exactly the allowed strings of the array, in their order.\<close>

lemma filterAllowed_keeps:
  "map JStr (filterAllowed allowed items) = filter (\<lambda>v. v \<in> JStr ` set allowed) items"
proof (induction items)
  case Nil
  then show ?case by (simp add: filterAllowed_def)
next
  case (Cons v items)
  then show ?case
    by (cases v) (auto simp: filterAllowed_def)
qed

text \<open>
  Claim C7. When no value of the raw equipment array is allowed, the equipment list
  should be \<open>[''hob'']\<close>. The code does not do this: the default is chosen by
  \<^verbatim>\<open>Array.isArray\<close> alone, so the array \<^verbatim>\<open>["microwave"]\<close> gives the empty list, while an
  array with allowed values keeps them and a recipe without the field gets \<open>[''hob'']\<close>.
\<close>

theorem normalizeRecipe_equipment_not_defaulted:
  "map_sum id equipment (normalizeRecipe ''u1'' noNumbers microwaveRecipe 0) = Inr [] \<and>
   map_sum id equipment (normalizeRecipe ''u2'' noNumbers mixedRecipe 0) = Inr [''oven'', ''hob''] \<and>
   map_sum id equipment (normalizeRecipe ''u3'' noNumbers bareRecipe 0) = Inr [''hob'']"
  by code_simp

subsection \<open>Response extractor\<close>

lemma JSON_parse_ok: "(\<exists>v. JSON_parse parse s = Inr v) \<longleftrightarrow> parse s \<noteq> None"
  by (simp add: JSON_parse_def split: option.splits)

lemma JSON_parse_fail: "parse s = None \<Longrightarrow> JSON_parse parse s = Inl SyntaxError"
  by (simp add: JSON_parse_def)

lemma extract_direct:
  "directTruthy parse rawText \<Longrightarrow> \<exists>v. extractJsonFromText parse rawText = Inr v"
  by (auto simp: extractJsonFromText_def directTruthy_def Let_def split: option.splits)

lemma extract_fence:
  "\<not> directTruthy parse rawText \<Longrightarrow> codeFenceMatch rawText = Some captured \<Longrightarrow> captured \<noteq> [] \<Longrightarrow>
   extractJsonFromText parse rawText = JSON_parse parse captured"
  by (cases captured)
     (auto simp: extractJsonFromText_def directTruthy_def Let_def split: option.splits)

lemma extract_braces:
  "\<not> directTruthy parse rawText \<Longrightarrow>
   codeFenceMatch rawText = None \<or> codeFenceMatch rawText = Some [] \<Longrightarrow>
   extractJsonFromText parse rawText =
     (case braceSlice rawText of
        Some candidate \<Rightarrow> JSON_parse parse candidate
      | None \<Rightarrow> Inl (Error ''Model response did not include JSON.''))"
  by (auto simp: extractJsonFromText_def directTruthy_def Let_def split: option.splits)

text \<open>
  Claim C4, as amended. \<open>extractJsonFromText\<close> returns a parsed value exactly when the
  first applicable strategy succeeds: (a) the whole text parses to a truthy value; or
  else (b) a fenced block with non-empty contents is found and its contents parse; or
  else, no such block being found, (c) the text from the first \<^verbatim>\<open>{\<close> to the last \<^verbatim>\<open>}\<close>
  exists and parses. When a fenced block with non-empty contents is found and its contents
  do not parse, the call fails with the parse error, whatever strategy (c) would give.
\<close>

theorem extractJsonFromText_first_applicable:
  "((\<exists>v. extractJsonFromText parse rawText = Inr v) \<longleftrightarrow>
      directTruthy parse rawText \<or>
      (\<not> directTruthy parse rawText \<and>
         (\<exists>captured. codeFenceMatch rawText = Some captured \<and> captured \<noteq> [] \<and>
                     parse captured \<noteq> None)) \<or>
      (\<not> directTruthy parse rawText \<and>
         (codeFenceMatch rawText = None \<or> codeFenceMatch rawText = Some []) \<and>
         (\<exists>candidate. braceSlice rawText = Some candidate \<and> parse candidate \<noteq> None))) \<and>
   (\<not> directTruthy parse rawText \<and> codeFenceMatch rawText = Some captured \<and>
      captured \<noteq> [] \<and> parse captured = None
      \<longrightarrow> extractJsonFromText parse rawText = Inl SyntaxError)"
proof (intro conjI impI)
  show "extractJsonFromText parse rawText = Inl SyntaxError"
    if "\<not> directTruthy parse rawText \<and> codeFenceMatch rawText = Some captured \<and>
        captured \<noteq> [] \<and> parse captured = None"
    using that extract_fence [of parse rawText captured] JSON_parse_fail [of parse captured]
    by simp
next
  show "(\<exists>v. extractJsonFromText parse rawText = Inr v) \<longleftrightarrow>
      directTruthy parse rawText \<or>
      (\<not> directTruthy parse rawText \<and>
         (\<exists>captured. codeFenceMatch rawText = Some captured \<and> captured \<noteq> [] \<and>
                     parse captured \<noteq> None)) \<or>
      (\<not> directTruthy parse rawText \<and>
         (codeFenceMatch rawText = None \<or> codeFenceMatch rawText = Some []) \<and>
         (\<exists>candidate. braceSlice rawText = Some candidate \<and> parse candidate \<noteq> None))"
  proof (cases "directTruthy parse rawText")
    case True
    then show ?thesis using extract_direct by blast
  next
    case nd: False
    show ?thesis
    proof (cases "\<exists>captured. codeFenceMatch rawText = Some captured \<and> captured \<noteq> []")
      case True
      then obtain captured where c: "codeFenceMatch rawText = Some captured" "captured \<noteq> []"
        by blast
      have "extractJsonFromText parse rawText = JSON_parse parse captured"
        using nd c by (rule extract_fence)
      then show ?thesis using nd c JSON_parse_ok [of parse captured] by auto
    next
      case False
      then have nf: "codeFenceMatch rawText = None \<or> codeFenceMatch rawText = Some []"
        by (cases "codeFenceMatch rawText") auto
      have e: "extractJsonFromText parse rawText =
         (case braceSlice rawText of
            Some candidate \<Rightarrow> JSON_parse parse candidate
          | None \<Rightarrow> Inl (Error ''Model response did not include JSON.''))"
        using nd nf by (rule extract_braces)
      show ?thesis
      proof (cases "braceSlice rawText")
        case None
        then show ?thesis using nd nf e by auto
      next
        case (Some candidate)
        then show ?thesis using nd nf e JSON_parse_ok [of parse candidate] by auto
      qed
    qed
  qed
qed

theorem extractJsonFromText_first_applicable_witness:
  "\<not> directTruthy sampleParse fencedReply \<and>
   codeFenceMatch fencedReply = Some emptyRecipesJson \<and> emptyRecipesJson \<noteq> [] \<and>
   sampleParse emptyRecipesJson \<noteq> None \<and>
   (\<exists>v. extractJsonFromText sampleParse fencedReply = Inr v)"
proof -
  have a: "\<not> directTruthy sampleParse fencedReply" by code_simp
  have b: "codeFenceMatch fencedReply = Some emptyRecipesJson" by code_simp
  have c: "emptyRecipesJson \<noteq> []" by code_simp
  have d: "sampleParse emptyRecipesJson \<noteq> None" by code_simp
  have "\<exists>captured. codeFenceMatch fencedReply = Some captured \<and> captured \<noteq> [] \<and>
                     sampleParse captured \<noteq> None"
    using b c d by blast
  with a have "\<exists>v. extractJsonFromText sampleParse fencedReply = Inr v"
    using extractJsonFromText_first_applicable [of sampleParse fencedReply] by blast
  with a b c d show ?thesis by (intro conjI)
qed

text \<open>
  Claim C4 as stated fails: in the reply below the fenced block holds \<^verbatim>\<open>not json\<close> and the
  braces after it hold the valid document \<^verbatim>\<open>{}\<close>; strategy (c) would parse it, and the call
  fails with the parse error of the fenced block.
\<close>

theorem extractJsonFromText_bad_fence_counterexample:
  "braceSlice badFenceReply = Some ''{}'' \<and> sampleParse ''{}'' = Some (JObj []) \<and>
   codeFenceMatch badFenceReply = Some ''not json'' \<and> sampleParse ''not json'' = None \<and>
   extractJsonFromText sampleParse badFenceReply = Inl SyntaxError"
  by code_simp

subsection \<open>Generation orchestrator\<close>

text \<open>
  For every \<^verbatim>\<open>recipeCount\<close> other than \<^verbatim>\<open>NaN\<close> a returned result has at least one recipe, and
  a payload other than \<^verbatim>\<open>null\<close> that normalises to zero recipes is refused, whatever the
  count.
\<close>

lemma count_clamped:
  "recipeCount \<noteq> NaN \<Longrightarrow>
   \<exists>v. Math_max (Finite 1) (Math_min (Finite 6) recipeCount) = Finite v \<and> 1 \<le> v \<and> v \<le> 6"
  by (cases recipeCount) auto

lemma sliceFromStart_nonempty:
  assumes "xs \<noteq> []" and "1 \<le> v"
  shows "sliceFromStart xs (Finite v) \<noteq> []"
proof -
  have "1 \<le> \<lfloor>v\<rfloor>" using assms(2) by (simp add: le_floor_iff)
  then have "0 < nat \<lfloor>v\<rfloor>" by simp
  moreover have "\<not> v < 0" using assms(2) by simp
  ultimately show ?thesis using assms(1) by (simp add: sliceFromStart_def Let_def)
qed

lemma generateFromPayload_nonempty:
  assumes "recipeCount \<noteq> NaN"
    and "generateFromPayload Number uuids recipeCount payload = Inr g"
  shows "recipes g \<noteq> []"
proof -
  from assms(2) obtain normalized where
    ne: "normalized \<noteq> []" and
    g: "recipes g = sliceFromStart normalized
                     (Math_max (Finite 1) (Math_min (Finite 6) recipeCount))"
    by (auto simp: generateFromPayload_def split: if_splits sum.splits)
  from count_clamped [OF assms(1)] obtain v where
    v: "Math_max (Finite 1) (Math_min (Finite 6) recipeCount) = Finite v" "1 \<le> v" by blast
  show ?thesis unfolding g v(1) using ne v(2) by (rule sliceFromStart_nonempty)
qed

lemma generateRecipesWithLlm_nonempty_unless_NaN:
  assumes "recipeCount \<noteq> NaN"
    and "generateRecipesWithLlm parse Number uuids recipeCount structured unstructured = Inr g"
  shows "recipes g \<noteq> []"
proof -
  from assms(2) obtain p where "generateFromPayload Number uuids recipeCount p = Inr g"
    by (auto simp: generateRecipesWithLlm_def split: sum.splits)
  with assms(1) show ?thesis by (rule generateFromPayload_nonempty)
qed

lemma generateRecipesWithLlm_no_usable_recipes:
  assumes "obtainPayload parse structured unstructured = Inr payload"
    and "payload \<noteq> JNull"
    and "normalizedRecipes Number uuids payload = Inr []"
  shows "generateRecipesWithLlm parse Number uuids recipeCount structured unstructured
           = Inl (Error ''Model returned no usable recipes.'')"
  using assms by (simp add: generateRecipesWithLlm_def generateFromPayload_def)

text \<open>
  Claim C5. \<open>generateRecipesWithLlm\<close> should never return an empty recipe list. The code
  does when \<^verbatim>\<open>recipeCount\<close> is \<^verbatim>\<open>NaN\<close>: \<^verbatim>\<open>Math.max(1, Math.min(6, NaN))\<close> is \<^verbatim>\<open>NaN\<close>, and
  \<^verbatim>\<open>slice(0, NaN)\<close> is the empty list, so a reply with one usable recipe is returned as a
  result without recipes. With the count 4 the same reply gives its recipe.
\<close>

theorem generateRecipesWithLlm_NaN_count:
  "Math_max (Finite 1) (Math_min (Finite 6) NaN) = NaN \<and>
   map_sum id (map recipe_id \<circ> recipes)
     (generateRecipesWithLlm sampleParse noNumbers sampleUuids (Finite 4)
        (Inr oneRecipeJson) (Inr oneRecipeJson)) = Inr [''llm-uuid-0''] \<and>
   map_sum id recipes
     (generateRecipesWithLlm sampleParse noNumbers sampleUuids NaN
        (Inr oneRecipeJson) (Inr oneRecipeJson)) = Inr []"
  by code_simp

end
